theory Spec2Isabelle
  imports Main
begin

section \<open>Values and texts\<close>

text \<open>
  A cell of a pandas frame, of a record handed to the store, or of a stored row.
  \<open>NA\<close> is a missing value (NaN, NaT, None, SQL NULL); \<open>Num\<close> an integer; \<open>Dec\<close> a
  number with a fractional part, kept by its text; \<open>Str\<close> a text that is neither a
  number nor a date; \<open>Stamp\<close> a datetime as nanoseconds since the epoch (in a chunk as
  read: a text that pandas reads as that datetime); \<open>Flag\<close> a boolean.
  Texts are taken to be ASCII, so that a \<open>char\<close> is one character; the byte order
  mark is its three UTF-8 bytes.
\<close>

datatype cell = NA | Num int | Dec string | Str string | Stamp int | Flag bool

type_synonym row = "(string \<times> cell) list"

definition field :: "row \<Rightarrow> string \<Rightarrow> cell" where
  "field r k = (case map_of r k of None \<Rightarrow> NA | Some v \<Rightarrow> v)"

definition present :: "row \<Rightarrow> string \<Rightarrow> bool" where
  "present r k = (field r k \<noteq> NA)"

text \<open>Python's \<open>str.strip()\<close> and \<open>str.upper()\<close> on ASCII text.\<close>

definition is_space :: "char \<Rightarrow> bool" where
  "is_space c = ((of_char c :: nat) \<in> {9, 10, 11, 12, 13, 28, 29, 30, 31, 32})"

definition strip :: "string \<Rightarrow> string" where
  "strip s = rev (dropWhile is_space (rev (dropWhile is_space s)))"

definition upper_char :: "char \<Rightarrow> char" where
  "upper_char c =
     (let n = (of_char c :: nat) in if 97 \<le> n \<and> n \<le> 122 then char_of (n - 32) else c)"

definition upper :: "string \<Rightarrow> string" where
  "upper s = map upper_char s"

text \<open>Python's \<open>str\<close> of an integer.\<close>

function show_nat :: "nat \<Rightarrow> string" where
  "show_nat n =
     (if n < 10 then [char_of (48 + n)] else show_nat (n div 10) @ [char_of (48 + n mod 10)])"
  by pat_completeness auto
termination
  by (relation "measure id") auto

declare show_nat.simps [simp del]

definition show_int :: "int \<Rightarrow> string" where
  "show_int i = (if i < 0 then CHR ''-'' # show_nat (nat (- i)) else show_nat (nat i))"

text \<open>
  \<open>Series.astype(str)\<close>, cell by cell, as pandas before 3.0 does it: a missing value
  becomes the text \<open>nan\<close>. Instants are kept as integers, and so is their text.
\<close>

fun py_str :: "cell \<Rightarrow> string" where
  "py_str NA = ''nan''"
| "py_str (Num n) = show_int n"
| "py_str (Dec s) = s"
| "py_str (Str s) = s"
| "py_str (Stamp t) = show_int t"
| "py_str (Flag b) = (if b then ''True'' else ''False'')"

text \<open>\<open>pd.to_numeric(errors="coerce")\<close>: what is not a number becomes missing.\<close>

fun to_numeric :: "cell \<Rightarrow> cell" where
  "to_numeric (Num n) = Num n"
| "to_numeric (Dec s) = Dec s"
| "to_numeric (Flag b) = Num (if b then 1 else 0)"
| "to_numeric _ = NA"

text \<open>
  \<open>pd.to_datetime(errors="coerce")\<close>: an integer is read as nanoseconds since the
  epoch, what is not a datetime becomes missing (NaT).
\<close>

fun to_datetime :: "cell \<Rightarrow> cell" where
  "to_datetime (Stamp t) = Stamp t"
| "to_datetime (Num n) = Stamp n"
| "to_datetime _ = NA"

section \<open>The schema of \<open>db/models.py\<close>\<close>

datatype tbl =
    Crews | Shift_Definitions | Users | Operators | Crew_Rotation | Shift_Instances
  | Sessions | Events | Session_Features | Baseline_Profiles | Detection | Alerts
  | CTI_Objects | Alert_CTI_Links

datatype sqltype = Integer | String nat | Text | Float | Boolean | DateTime | Date | Time

text \<open>
  One \<open>mapped_column\<close>: name, type, \<open>nullable\<close>, \<open>primary_key\<close>, \<open>autoincrement\<close>,
  whether it has a \<open>default\<close> or \<open>server_default\<close>, \<open>unique\<close>, and its \<open>ForeignKey\<close>.
\<close>

datatype column = Column
  (cname: string) (ctype: sqltype) (nullable: bool) (primary_key: bool)
  (autoincrement: bool) (has_default: bool) (is_unique: bool)
  (foreign_key: "(tbl \<times> string) option")

definition pk_auto :: "string \<Rightarrow> column" where
  "pk_auto n = Column n Integer False True True False False None"

definition col :: "string \<Rightarrow> sqltype \<Rightarrow> bool \<Rightarrow> column" where
  "col n ty nl = Column n ty nl False False False False None"

definition col_default :: "string \<Rightarrow> sqltype \<Rightarrow> bool \<Rightarrow> column" where
  "col_default n ty nl = Column n ty nl False False True False None"

definition col_unique :: "string \<Rightarrow> sqltype \<Rightarrow> bool \<Rightarrow> column" where
  "col_unique n ty nl = Column n ty nl False False False True None"

definition fk :: "string \<Rightarrow> sqltype \<Rightarrow> bool \<Rightarrow> tbl \<Rightarrow> string \<Rightarrow> column" where
  "fk n ty nl t k = Column n ty nl False False False False (Some (t, k))"

definition created_at :: column where
  "created_at = col_default ''Created_At'' DateTime False"

fun schema :: "tbl \<Rightarrow> column list" where
  "schema Crews =
     [pk_auto ''Crew_ID'', col ''crew_name'' (String 10) False, created_at]"
| "schema Shift_Definitions =
     [pk_auto ''shift_id'', col ''shift_name'' (String 20) True,
      col ''start_time'' Time True, col ''end_time'' Time True,
      col ''duration_hours'' Integer True, created_at]"
| "schema Users =
     [pk_auto ''User_ID'', col_unique ''Username'' (String 50) False,
      col ''Password_Hash'' (String 255) False, col ''Role'' (String 30) False,
      col_unique ''Email'' (String 100) False, col ''Is_Active'' Boolean False,
      created_at, col ''Last_Login'' DateTime True]"
| "schema Operators =
     [Column ''Operator_ID'' (String 10) False True False False False None,
      fk ''Crew_ID'' Integer True Crews ''Crew_ID'',
      fk ''Default_Shift_ID'' Integer True Shift_Definitions ''shift_id'',
      col_default ''Operator_Rank'' Boolean False, created_at]"
| "schema Crew_Rotation =
     [pk_auto ''Rotation_ID'', fk ''Crew_ID'' Integer False Crews ''Crew_ID'',
      col ''Anchor_Date'' Date False, col ''On_Days'' Integer False,
      col ''Off_Days'' Integer False, created_at]"
| "schema Shift_Instances =
     [pk_auto ''shift_instance_id'', fk ''crew_id'' Integer False Crews ''Crew_ID'',
      fk ''shift_id'' Integer False Shift_Definitions ''shift_id'',
      col ''shift_start'' DateTime True, col ''shift_end'' DateTime True, created_at]"
| "schema Sessions =
     [pk_auto ''Session_ID'',
      fk ''shift_instance_id'' Integer True Shift_Instances ''shift_instance_id'',
      fk ''Operator_ID'' (String 10) False Operators ''Operator_ID'',
      fk ''Shift_ID'' Integer False Shift_Definitions ''shift_id'',
      col ''Session_Start'' DateTime False, col ''Session_End'' DateTime True,
      col ''Inactivity_Threshold_Min'' Integer False, created_at]"
| "schema Events =
     [pk_auto ''Event_ID'',
      fk ''Session_ID'' Integer False Sessions ''Session_ID'',
      fk ''Operator_ID'' (String 10) False Operators ''Operator_ID'',
      col_default ''Timestamp'' DateTime False,
      col ''TimeInterval'' Float False,
      col ''Address'' (String 20) False,
      col ''FunctionCode'' (String 10) False,
      col ''CommandResponse'' (String 20) False,
      col ''ControlMode'' (String 20) False,
      col ''ControlScheme'' (String 50) False,
      col ''CRC'' Integer False,
      col ''DataLength'' Integer False,
      col ''InvalidFunctionCode'' (String 5) False,
      col ''InvalidDataLength'' (String 5) False,
      col ''PumpState'' (String 20) False,
      col ''SolenoidState'' (String 20) False,
      col ''SetPoint'' Float False,
      col ''PipelinePSI'' Float False,
      col ''PIDCycleTime'' Float False,
      col ''PIDDeadband'' Float False,
      col ''PIDGain'' Float False,
      col ''PIDRate'' Float False,
      col ''PIDReset'' Float False,
      col ''deltaSetPoint'' Float False,
      col ''deltaPipelinePSI'' Float False,
      col ''deltaPIDCycleTime'' Float False,
      col ''deltaPIDDeadband'' Float False,
      col ''deltaPIDGain'' Float False,
      col ''deltaPIDRate'' Float False,
      col ''deltaPIDReset'' Float False,
      col ''Label'' (String 20) False]"
| "schema Session_Features =
     [pk_auto ''Session_features_ID'',
      Column ''Session_ID'' Integer False False False False True
        (Some (Sessions, ''Session_ID'')),
      created_at,
      col ''Command_Frequency'' Float False, col ''Inter_Command_Mean'' Float False,
      col ''Inter_Command_Std'' Float False, col ''Command_Burst_Rate'' Float False,
      col ''Control_Mode_Change_Rate'' Float False,
      col ''High_Risk_Command_Ratio'' Float False,
      col ''Invalid_Command_Rate'' Float False, col ''Pump_State_Change_Rate'' Float False,
      col ''SetPoint_Shock_Event_Rate'' Float False,
      col ''PID_Modification_Rate'' Float False, col ''Command_Entropy'' Float False,
      col ''Process_Command_Correlation'' Float False]"
| "schema Baseline_Profiles =
     [pk_auto ''Baseline_ID'',
      fk ''Operator_ID'' (String 10) False Operators ''Operator_ID'',
      fk ''Shift_ID'' Integer True Shift_Definitions ''shift_id'',
      col ''Baseline_Version'' (String 20) False, col ''Trained_From'' DateTime False,
      col ''Trained_To'' DateTime False, col ''Profile_JSON'' Text False, created_at]"
| "schema Detection =
     [pk_auto ''Detection_ID'',
      fk ''Event_ID'' Integer False Events ''Event_ID'',
      fk ''Baseline_ID'' Integer False Baseline_Profiles ''Baseline_ID'',
      col ''Model_Type'' (String 30) False, col ''Anomaly_Score'' Float False,
      col ''Threshold'' Float False, col ''Evidence_JSON'' Text False,
      col ''Predicted_Label'' (String 15) False,
      col_default ''Detection_Time'' DateTime False]"
| "schema Alerts =
     [pk_auto ''Alert_ID'',
      fk ''Event_ID'' Integer False Events ''Event_ID'',
      fk ''Session_ID'' Integer False Sessions ''Session_ID'',
      fk ''Detection_ID'' Integer False Detection ''Detection_ID'',
      col_default ''Alert_Time'' DateTime False, col ''Severity'' Integer False,
      col ''Alert_Category'' (String 30) False,
      col ''Alert_Description'' (String 500) False]"
| "schema CTI_Objects =
     [pk_auto ''CTI_ID'', col ''CTI_Type'' (String 30) False,
      col ''CTI_Name'' (String 150) False, col ''External_ID'' (String 50) True,
      col ''Rule'' (String 500) True, col ''Confidence'' Integer True, created_at]"
| "schema Alert_CTI_Links =
     [Column ''Alert_ID'' Integer False True False False False (Some (Alerts, ''Alert_ID'')),
      Column ''CTI_ID'' Integer False True False False False (Some (CTI_Objects, ''CTI_ID'')),
      col ''Match_Reason'' (String 250) True,
      col_default ''Link_Created_At'' DateTime False]"

text \<open>The \<open>UniqueConstraint\<close>s of \<open>__table_args__\<close>.\<close>

fun table_uniques :: "tbl \<Rightarrow> string list list" where
  "table_uniques Baseline_Profiles = [[''Operator_ID'', ''Shift_ID'', ''Baseline_Version'']]"
| "table_uniques Detection = [[''Event_ID'', ''Baseline_ID'', ''Model_Type'']]"
| "table_uniques _ = []"

section \<open>The store\<close>

text \<open>
  The relational store behind the SQLAlchemy session (PostgreSQL, \<open>db/database.py\<close>):
  a table is the list of its rows, a row the columns it holds a value for. A session
  sees \<open>pending\<close>, its open transaction; \<open>commit\<close> makes it durable and \<open>rollback\<close>
  discards it.
\<close>

type_synonym store = "tbl \<Rightarrow> row list"

record db =
  committed :: store
  pending :: store

definition commit :: "db \<Rightarrow> db" where
  "commit d = d\<lparr>committed := pending d\<rparr>"

definition rollback :: "db \<Rightarrow> db" where
  "rollback d = d\<lparr>pending := committed d\<rparr>"

datatype violation = NotNullViolation | UniqueViolation | ForeignKeyViolation

datatype error =
    ValueError_missing_columns "string list"
  | ValueError_unrecognized_shift "cell list"
  | TypeError
  | DataError
  | IntegrityError violation

datatype 'a result = Ok 'a db | Raise error db

text \<open>
  What the store checks on an insert, from the declarations of the schema. A text
  must fit the declared width of a \<open>String\<close> column (PostgreSQL raises a data error;
  other conversions between kinds of values are left to the driver and not modelled).
\<close>

fun fits :: "sqltype \<Rightarrow> cell \<Rightarrow> bool" where
  "fits (String n) v = (length (py_str v) \<le> n)"
| "fits _ v = True"

definition widths_ok :: "tbl \<Rightarrow> row \<Rightarrow> bool" where
  "widths_ok t r = list_all (\<lambda>c. fits (ctype c) (field r (cname c)) \<or> field r (cname c) = NA) (schema t)"

definition not_null_ok :: "tbl \<Rightarrow> row \<Rightarrow> bool" where
  "not_null_ok t r =
     list_all (\<lambda>c. nullable c \<or> has_default c \<or> autoincrement c \<or> present r (cname c))
       (schema t)"

definition unique_keys :: "tbl \<Rightarrow> string list list" where
  "unique_keys t =
     [map cname (filter primary_key (schema t))]
     @ map (\<lambda>c. [cname c]) (filter is_unique (schema t))
     @ table_uniques t"

definition key_of :: "string list \<Rightarrow> row \<Rightarrow> cell list" where
  "key_of ks r = map (field r) ks"

text \<open>SQL uniqueness: two rows clash on a key when neither has a NULL in it.\<close>

definition unique_ok :: "row list \<Rightarrow> tbl \<Rightarrow> row \<Rightarrow> bool" where
  "unique_ok rs t r =
     list_all (\<lambda>ks. NA \<in> set (key_of ks r) \<or> list_all (\<lambda>r'. key_of ks r' \<noteq> key_of ks r) rs)
       (unique_keys t)"

definition fk_ok :: "store \<Rightarrow> tbl \<Rightarrow> row \<Rightarrow> bool" where
  "fk_ok s t r =
     list_all (\<lambda>c. case foreign_key c of
                  None \<Rightarrow> True
                | Some (t', k') \<Rightarrow>
                    field r (cname c) = NA \<or> field r (cname c) \<in> set (map (\<lambda>r'. field r' k') (s t')))
       (schema t)"

text \<open>
  A generated key is one the table does not hold yet; the model takes the successor
  of the largest key of the table.
\<close>

definition next_id :: "row list \<Rightarrow> string \<Rightarrow> int" where
  "next_id rs k = 1 + fold max (concat (map (\<lambda>r. case field r k of Num n \<Rightarrow> [n] | _ \<Rightarrow> []) rs)) 0"

definition generated :: "row list \<Rightarrow> tbl \<Rightarrow> row \<Rightarrow> row" where
  "generated rs t r =
     map (\<lambda>c. (cname c, Num (next_id rs (cname c))))
       (filter (\<lambda>c. autoincrement c \<and> \<not> present r (cname c)) (schema t))"

text \<open>
  \<open>bulk_insert_mappings\<close> leaves a \<open>None\<close> out of the INSERT (\<open>render_nulls=False\<close>)
  and ignores keys that are not columns of the table.
\<close>

definition column_names :: "tbl \<Rightarrow> string list" where
  "column_names t = map cname (schema t)"

definition rendered :: "tbl \<Rightarrow> row \<Rightarrow> row" where
  "rendered t r = filter (\<lambda>(k, v). v \<noteq> NA \<and> k \<in> set (column_names t)) r"

definition insert_row :: "store \<Rightarrow> tbl \<Rightarrow> row \<Rightarrow> error + store" where
  "insert_row s t r0 =
     (let r = rendered t r0 in
      if \<not> widths_ok t r then Inl DataError
      else if \<not> not_null_ok t r then Inl (IntegrityError NotNullViolation)
      else let r' = r @ generated (s t) t r in
        if \<not> unique_ok (s t) t r' then Inl (IntegrityError UniqueViolation)
        else if \<not> fk_ok s t r' then Inl (IntegrityError ForeignKeyViolation)
        else Inr (s(t := s t @ [r'])))"

fun insert_rows :: "store \<Rightarrow> tbl \<Rightarrow> row list \<Rightarrow> error + store" where
  "insert_rows s t [] = Inr s"
| "insert_rows s t (r # rs) =
     (case insert_row s t r of Inl e \<Rightarrow> Inl e | Inr s' \<Rightarrow> insert_rows s' t rs)"

text \<open>
  \<open>db.bulk_insert_mappings\<close>: every row goes into the open transaction, or the first
  refused row raises and the transaction is left for the caller to roll back.
\<close>

definition bulk_insert_mappings :: "db \<Rightarrow> tbl \<Rightarrow> row list \<Rightarrow> unit result" where
  "bulk_insert_mappings d t rs =
     (case insert_rows (pending d) t rs of
        Inl e \<Rightarrow> Raise e d
      | Inr s' \<Rightarrow> Ok () (d\<lparr>pending := s'\<rparr>))"

section \<open>Frames\<close>

text \<open>A pandas DataFrame: its column labels and its rows, each a cell per column.\<close>

record frame =
  columns :: "string list"
  rows :: "row list"

definition column_values :: "frame \<Rightarrow> string \<Rightarrow> cell list" where
  "column_values df c = map (\<lambda>r. field r c) (rows df)"

text \<open>\<open>df[cols]\<close>: the frame of the listed columns.\<close>

definition select :: "frame \<Rightarrow> string list \<Rightarrow> frame" where
  "select df cs = \<lparr>columns = cs, rows = map (\<lambda>r. map (\<lambda>c. (c, field r c)) cs) (rows df)\<rparr>"

text \<open>\<open>df[c] = f(df[c])\<close>, cell by cell.\<close>

definition map_column :: "string \<Rightarrow> (cell \<Rightarrow> cell) \<Rightarrow> frame \<Rightarrow> frame" where
  "map_column c f df =
     df\<lparr>rows := map (\<lambda>r. map (\<lambda>(k, v). (k, if k = c then f v else v)) r) (rows df)\<rparr>"

text \<open>\<open>df.dropna(subset=ks)\<close>.\<close>

definition dropna :: "string list \<Rightarrow> frame \<Rightarrow> frame" where
  "dropna ks df = df\<lparr>rows := filter (\<lambda>r. list_all (\<lambda>k. field r k \<noteq> NA) ks) (rows df)\<rparr>"

text \<open>\<open>Series.unique()\<close>: the distinct values in order of first appearance.\<close>

fun unique :: "'a list \<Rightarrow> 'a list" where
  "unique [] = []"
| "unique (x # xs) = x # unique (filter (\<lambda>y. y \<noteq> x) xs)"

section \<open>The loader, \<open>load_data.py\<close>\<close>

definition EVENTS_COLS :: "string list" where
  "EVENTS_COLS =
     [''Session_ID'', ''Operator_ID'', ''Timestamp'', ''TimeInterval'', ''Address'',
      ''FunctionCode'', ''CommandResponse'', ''ControlMode'', ''ControlScheme'', ''CRC'',
      ''DataLength'', ''InvalidFunctionCode'', ''InvalidDataLength'', ''PumpState'',
      ''SolenoidState'', ''SetPoint'', ''PipelinePSI'', ''PIDCycleTime'', ''PIDDeadband'',
      ''PIDGain'', ''PIDRate'', ''PIDReset'', ''deltaSetPoint'', ''deltaPipelinePSI'',
      ''deltaPIDCycleTime'', ''deltaPIDDeadband'', ''deltaPIDGain'', ''deltaPIDRate'',
      ''deltaPIDReset'', ''Label'', ''Shift'']"

definition SHIFT_MAP :: "string \<rightharpoonup> int" where
  "SHIFT_MAP = map_of [(''DAY'', 1), (''NIGHT'', 2)]"

definition MAXLEN :: "(string \<times> nat) list" where
  "MAXLEN =
     [(''Address'', 50), (''CommandResponse'', 50), (''ControlMode'', 50),
      (''ControlScheme'', 100), (''PumpState'', 50), (''SolenoidState'', 50),
      (''Label'', 50), (''FunctionCode'', 10), (''InvalidFunctionCode'', 5),
      (''InvalidDataLength'', 5)]"

definition required :: "string list" where
  "required = [''Session_ID'', ''Operator_ID'', ''Timestamp'', ''Shift'']"

subsection \<open>\<open>ensure_operators\<close>\<close>

definition operator_record :: "string \<Rightarrow> row" where
  "operator_record oid = [(''Operator_ID'', Str oid), (''Operator_Rank'', Flag True)]"

definition ensure_operators :: "db \<Rightarrow> string list \<Rightarrow> unit result" where
  "ensure_operators d operator_ids =
     (if operator_ids = [] then Ok () d
      else
        let existing =
              filter (\<lambda>oid. Str oid \<in> set (map (\<lambda>r. field r ''Operator_ID'') (pending d Operators)))
                operator_ids;
            missing = filter (\<lambda>oid. oid \<notin> set existing) operator_ids
        in if missing = [] then Ok () d
           else (case bulk_insert_mappings d Operators (map operator_record missing) of
                   Raise e d' \<Rightarrow> Raise e d'
                 | Ok u d' \<Rightarrow> Ok () (commit d')))"

subsection \<open>\<open>ensure_sessions\<close>\<close>

text \<open>
  The aggregations of \<open>groupby(...).agg\<close>: \<open>first\<close> is the first value that is not
  missing, \<open>min\<close> and \<open>max\<close> skip missing values; the groups come in ascending order
  of their key, and a missing key has no group.
\<close>

definition first_valid :: "cell list \<Rightarrow> cell" where
  "first_valid vs = (case filter (\<lambda>v. v \<noteq> NA) vs of [] \<Rightarrow> NA | v # _ \<Rightarrow> v)"

definition stamps :: "cell list \<Rightarrow> int list" where
  "stamps vs = concat (map (\<lambda>v. case v of Stamp t \<Rightarrow> [t] | _ \<Rightarrow> []) vs)"

definition agg_min :: "cell list \<Rightarrow> cell" where
  "agg_min vs = (case stamps vs of [] \<Rightarrow> NA | t # ts \<Rightarrow> Stamp (Min (set (t # ts))))"

definition agg_max :: "cell list \<Rightarrow> cell" where
  "agg_max vs = (case stamps vs of [] \<Rightarrow> NA | t # ts \<Rightarrow> Stamp (Max (set (t # ts))))"

definition group_keys :: "frame \<Rightarrow> int list" where
  "group_keys df =
     sort (remdups (concat (map (\<lambda>v. case v of Num n \<Rightarrow> [n] | _ \<Rightarrow> [])
       (column_values df ''Session_ID''))))"

definition group_rows :: "frame \<Rightarrow> int \<Rightarrow> row list" where
  "group_rows df n = filter (\<lambda>r. field r ''Session_ID'' = Num n) (rows df)"

definition aggregate_row :: "frame \<Rightarrow> int \<Rightarrow> row" where
  "aggregate_row df n =
     (let g = group_rows df n in
        [(''Session_ID'', Num n),
         (''Operator_ID'', first_valid (map (\<lambda>r. field r ''Operator_ID'') g)),
         (''Shift'', first_valid (map (\<lambda>r. field r ''Shift'') g)),
         (''Session_Start'', agg_min (map (\<lambda>r. field r ''Timestamp'') g)),
         (''Session_End'', agg_max (map (\<lambda>r. field r ''Timestamp'') g))])"

definition aggregate :: "frame \<Rightarrow> row list" where
  "aggregate df = map (aggregate_row df) (group_keys df)"

text \<open>\<open>sess["Shift"].astype(str).str.strip().str.upper().map(SHIFT_MAP)\<close>\<close>

definition shift_id :: "cell \<Rightarrow> int option" where
  "shift_id v = SHIFT_MAP (upper (strip (py_str v)))"

definition session_record :: "row \<Rightarrow> row" where
  "session_record r =
     [(''Session_ID'', field r ''Session_ID''),
      (''Operator_ID'', field r ''Operator_ID''),
      (''Shift_ID'', case shift_id (field r ''Shift'') of None \<Rightarrow> NA | Some k \<Rightarrow> Num k),
      (''Session_Start'', field r ''Session_Start''),
      (''Session_End'', field r ''Session_End''),
      (''Inactivity_Threshold_Min'', Num 10)]"

definition ensure_sessions :: "db \<Rightarrow> frame \<Rightarrow> unit result" where
  "ensure_sessions d df =
     (let sess = aggregate df;
          bad = filter (\<lambda>r. shift_id (field r ''Shift'') = None) sess
      in if bad \<noteq> [] then
           Raise (ValueError_unrecognized_shift (map (\<lambda>r. field r ''Shift'') (take 10 bad))) d
         else
           let session_ids = map (\<lambda>r. field r ''Session_ID'') sess;
               existing =
                 filter (\<lambda>sid. sid \<in> set (map (\<lambda>r. field r ''Session_ID'') (pending d Sessions)))
                   session_ids;
               to_insert = filter (\<lambda>r. field r ''Session_ID'' \<notin> set existing) sess
           in if to_insert = [] then Ok () d
              else (case bulk_insert_mappings d Sessions (map session_record to_insert) of
                      Raise e d' \<Rightarrow> Raise e d'
                    | Ok u d' \<Rightarrow> Ok () (commit d')))"

subsection \<open>\<open>load_events_csv\<close>\<close>

definition bom :: string where
  "bom = [CHR 0xEF, CHR 0xBB, CHR 0xBF]"

function remove_bom :: "string \<Rightarrow> string" where
  "remove_bom [] = []"
| "remove_bom (c # cs) =
     (if take 3 (c # cs) = bom then remove_bom (drop 2 cs) else c # remove_bom cs)"
  by pat_completeness auto
termination
  by (relation "measure length") auto

definition clean_header :: "string \<Rightarrow> string" where
  "clean_header h = strip (remove_bom h)"

definition clean_headers :: "frame \<Rightarrow> frame" where
  "clean_headers chunk =
     \<lparr>columns = map clean_header (columns chunk),
      rows = map (\<lambda>r. map (\<lambda>(k, v). (clean_header k, v)) r) (rows chunk)\<rparr>"

definition is_Dec :: "cell \<Rightarrow> bool" where
  "is_Dec v = (case v of Dec s \<Rightarrow> True | _ \<Rightarrow> False)"

text \<open>
  Lines 125 to 153: the coercions, the slicing to \<open>MAXLEN\<close> and the drop of the rows
  with a missing key. \<open>astype("Int64")\<close> raises on a number that is not whole.
\<close>

definition slice_columns :: "frame \<Rightarrow> frame" where
  "slice_columns df =
     fold (\<lambda>(c, mx) df. if c \<in> set (columns df)
                         then map_column c (\<lambda>v. Str (take mx (py_str v))) df else df)
       MAXLEN df"

definition coerce :: "frame \<Rightarrow> frame" where
  "coerce df =
     (let df = map_column ''Session_ID'' to_numeric df;
          df = map_column ''Operator_ID'' (\<lambda>v. Str (strip (py_str v))) df;
          df = map_column ''Timestamp'' to_datetime df;
          df = (if ''Label'' \<in> set (columns df)
                then map_column ''Label'' (\<lambda>v. Str (strip (py_str v))) df else df);
          df = slice_columns df
      in dropna [''Session_ID'', ''Operator_ID'', ''Timestamp''] df)"

definition event_records :: "frame \<Rightarrow> row list" where
  "event_records df =
     rows (select df (filter (\<lambda>c. c \<in> set (columns df) \<and> c \<noteq> ''Shift'') EVENTS_COLS))"

text \<open>Lines 109 to 116: the cleaned headers and the recognised columns.\<close>

definition keep_columns :: "frame \<Rightarrow> frame" where
  "keep_columns chunk0 =
     (let chunk = clean_headers chunk0;
          keep = filter (\<lambda>c. c \<in> set (columns chunk)) EVENTS_COLS
      in select chunk keep)"

definition load_chunk :: "db \<Rightarrow> frame \<Rightarrow> nat result" where
  "load_chunk d chunk =
     (let df = keep_columns chunk;
          miss = filter (\<lambda>c. c \<notin> set (columns df)) required
      in if miss \<noteq> [] then Raise (ValueError_missing_columns miss) d
         else if list_ex is_Dec (map to_numeric (column_values df ''Session_ID''))
         then Raise TypeError d
         else
           let df = coerce df in
           (case ensure_operators d (unique (map py_str (column_values df ''Operator_ID''))) of
              Raise e d' \<Rightarrow> Raise e d'
            | Ok u d1 \<Rightarrow>
               (case ensure_sessions d1 df of
                  Raise e d' \<Rightarrow> Raise e d'
                | Ok u d2 \<Rightarrow>
                   let records = event_records df in
                   (case bulk_insert_mappings d2 Events records of
                      Raise e d' \<Rightarrow> Raise e d'
                    | Ok u d3 \<Rightarrow> Ok (length records) (commit d3)))))"

fun load_chunks :: "db \<Rightarrow> nat \<Rightarrow> frame list \<Rightarrow> nat result" where
  "load_chunks d total_inserted [] = Ok total_inserted d"
| "load_chunks d total_inserted (chunk # chunks) =
     (case load_chunk d chunk of
        Raise e d' \<Rightarrow> Raise e d'
      | Ok n d' \<Rightarrow> load_chunks d' (total_inserted + n) chunks)"

text \<open>
  \<open>load_events_csv\<close> on the chunks that \<open>pd.read_csv\<close> yields: a new session on the
  store, the loop, and the handlers, which roll the open transaction back and raise
  again.
\<close>

definition SessionLocal :: "store \<Rightarrow> db" where
  "SessionLocal s = \<lparr>committed = s, pending = s\<rparr>"

definition load_events_csv :: "store \<Rightarrow> frame list \<Rightarrow> nat result" where
  "load_events_csv s chunks =
     (case load_chunks (SessionLocal s) 0 chunks of
        Raise e d \<Rightarrow> Raise e (rollback d)
      | Ok n d \<Rightarrow> Ok n d)"

section \<open>Deleting through the ORM\<close>

text \<open>
  The collections that \<open>db/models.py\<close> declares with \<open>relationship\<close> on the parent's
  side: parent, the parent's key, child, the child's foreign key column, and whether
  \<open>cascade\<close> holds \<open>delete\<close> (\<open>"all, delete-orphan"\<close>).
\<close>

datatype relationship = Relationship
  (parent: tbl) (parent_key: string) (child: tbl) (child_fk: string) (cascade_delete: bool)

definition relationships :: "relationship list" where
  "relationships =
     [Relationship Crews ''Crew_ID'' Operators ''Crew_ID'' False,
      Relationship Crews ''Crew_ID'' Crew_Rotation ''Crew_ID'' False,
      Relationship Crews ''Crew_ID'' Shift_Instances ''crew_id'' False,
      Relationship Shift_Definitions ''shift_id'' Operators ''Default_Shift_ID'' False,
      Relationship Shift_Definitions ''shift_id'' Sessions ''Shift_ID'' False,
      Relationship Shift_Definitions ''shift_id'' Baseline_Profiles ''Shift_ID'' False,
      Relationship Shift_Definitions ''shift_id'' Shift_Instances ''shift_id'' False,
      Relationship Operators ''Operator_ID'' Sessions ''Operator_ID'' False,
      Relationship Operators ''Operator_ID'' Events ''Operator_ID'' False,
      Relationship Operators ''Operator_ID'' Baseline_Profiles ''Operator_ID'' False,
      Relationship Shift_Instances ''shift_instance_id'' Sessions ''shift_instance_id'' False,
      Relationship Sessions ''Session_ID'' Events ''Session_ID'' True,
      Relationship Sessions ''Session_ID'' Session_Features ''Session_ID'' True,
      Relationship Sessions ''Session_ID'' Alerts ''Session_ID'' True,
      Relationship Events ''Event_ID'' Detection ''Event_ID'' False,
      Relationship Events ''Event_ID'' Alerts ''Event_ID'' True,
      Relationship Baseline_Profiles ''Baseline_ID'' Detection ''Baseline_ID'' False,
      Relationship Detection ''Detection_ID'' Alerts ''Detection_ID'' True,
      Relationship Alerts ''Alert_ID'' Alert_CTI_Links ''Alert_ID'' True,
      Relationship CTI_Objects ''CTI_ID'' Alert_CTI_Links ''CTI_ID'' False]"

type_synonym obj = "tbl \<times> row"

text \<open>The members of a collection: the child rows whose foreign key is the parent's key.\<close>

definition collection :: "store \<Rightarrow> relationship \<Rightarrow> row \<Rightarrow> row list" where
  "collection s rel r =
     filter (\<lambda>rc. field rc (child_fk rel) \<noteq> NA \<and> field rc (child_fk rel) = field r (parent_key rel))
       (s (child rel))"

definition cascaded :: "store \<Rightarrow> obj \<Rightarrow> obj list" where
  "cascaded s x =
     concat (map (\<lambda>rel. map (\<lambda>rc. (child rel, rc)) (collection s rel (snd x)))
       (filter (\<lambda>rel. parent rel = fst x \<and> cascade_delete rel) relationships))"

text \<open>The cascades form no cycle: a table's depth is the longest chain below it.\<close>

fun depth :: "tbl \<Rightarrow> nat" where
  "depth Sessions = 3"
| "depth Events = 2"
| "depth Detection = 2"
| "depth Alerts = 1"
| "depth _ = 0"

lemma cascaded_depth: "y \<in> set (cascaded s x) \<Longrightarrow> depth (fst y) < depth (fst x)"
  unfolding cascaded_def relationships_def
  by (cases "fst x") auto

text \<open>Everything that \<open>session.delete(obj)\<close> marks as deleted: the object and, through
  each collection that cascades, its members and theirs.\<close>

function deleted :: "store \<Rightarrow> obj \<Rightarrow> obj list" where
  "deleted s x = x # concat (map (deleted s) (cascaded s x))"
  by pat_completeness auto
termination
  by (relation "measure (\<lambda>(s, x). depth (fst x))") (auto dest: cascaded_depth)

declare deleted.simps [simp del]

text \<open>
  A member of a collection that does not cascade loses its parent: the unit of work
  sets its foreign key to NULL, which the store refuses for a column that is not
  nullable. A member that is deleted itself is left alone.
\<close>

definition orphaned :: "obj list \<Rightarrow> relationship \<Rightarrow> row \<Rightarrow> bool" where
  "orphaned ds rel rc =
     (\<not> cascade_delete rel \<and> (child rel, rc) \<notin> set ds \<and> field rc (child_fk rel) \<noteq> NA \<and>
      list_ex (\<lambda>x. fst x = parent rel \<and> field (snd x) (parent_key rel) = field rc (child_fk rel)) ds)"

definition fk_nullable :: "relationship \<Rightarrow> bool" where
  "fk_nullable rel =
     list_all (\<lambda>c. cname c \<noteq> child_fk rel \<or> nullable c) (schema (child rel))"

definition blank :: "obj list \<Rightarrow> tbl \<Rightarrow> row \<Rightarrow> row" where
  "blank ds t rc =
     filter (\<lambda>(k, v). \<not> list_ex (\<lambda>rel. child rel = t \<and> child_fk rel = k \<and> orphaned ds rel rc)
                        relationships) rc"

definition orm_delete :: "db \<Rightarrow> tbl \<Rightarrow> row \<Rightarrow> unit result" where
  "orm_delete d t r =
     (let s = pending d;
          ds = deleted s (t, r)
      in if list_ex (\<lambda>rel. \<not> fk_nullable rel \<and> list_ex (orphaned ds rel) (s (child rel)))
              relationships
         then Raise (IntegrityError NotNullViolation) d
         else Ok () (d\<lparr>pending :=
                (\<lambda>t'. map (blank ds t') (filter (\<lambda>r'. (t', r') \<notin> set ds) (s t')))\<rparr>))"

section \<open>Auxiliary notions\<close>




section \<open>Example data\<close>

text \<open>A store that holds the two shift definitions and nothing else.\<close>

definition shifts_only :: store where
  "shifts_only =
     (\<lambda>t. [])(Shift_Definitions :=
        [[(''shift_id'', Num 1), (''shift_name'', Str ''Day'')],
         [(''shift_id'', Num 2), (''shift_name'', Str ''Night'')]])"

text \<open>A row of the four required columns.\<close>

definition req_row :: "cell \<Rightarrow> cell \<Rightarrow> cell \<Rightarrow> cell \<Rightarrow> row" where
  "req_row sid oid ts sh =
     [(''Session_ID'', sid), (''Operator_ID'', oid), (''Timestamp'', ts), (''Shift'', sh)]"

definition batch :: frame where
  "batch = \<lparr>columns = required,
     rows = [req_row (Num 7) (Str ''op1'') (Stamp 100) (Str '' night ''),
             req_row (Num 3) (Str ''op2'') (Stamp 70) (Str ''DAY''),
             req_row (Num 7) (Str ''op2'') (Stamp 50) (Str ''Day'')]\<rparr>"

text \<open>A row and a chunk with every recognised column.\<close>

definition payload :: row where
  "payload =
     [(''TimeInterval'', Dec ''0.5''), (''Address'', Num 4), (''FunctionCode'', Num 3),
      (''CommandResponse'', Num 1), (''ControlMode'', Num 2), (''ControlScheme'', Num 1),
      (''CRC'', Num 12345), (''DataLength'', Num 16), (''InvalidFunctionCode'', Num 0),
      (''InvalidDataLength'', Num 0), (''PumpState'', Num 1), (''SolenoidState'', Num 0),
      (''SetPoint'', Dec ''20.5''), (''PipelinePSI'', Dec ''19.8''),
      (''PIDCycleTime'', Dec ''0.1''), (''PIDDeadband'', Dec ''0.2''),
      (''PIDGain'', Dec ''0.3''), (''PIDRate'', Dec ''0.4''), (''PIDReset'', Dec ''0.5''),
      (''deltaSetPoint'', Num 0), (''deltaPipelinePSI'', Num 0),
      (''deltaPIDCycleTime'', Num 0), (''deltaPIDDeadband'', Num 0),
      (''deltaPIDGain'', Num 0), (''deltaPIDRate'', Num 0), (''deltaPIDReset'', Num 0),
      (''Label'', Str ''Good'')]"

definition full_row :: "cell \<Rightarrow> cell \<Rightarrow> cell \<Rightarrow> cell \<Rightarrow> row" where
  "full_row sid oid ts sh =
     [(''Session_ID'', sid), (''Operator_ID'', oid), (''Timestamp'', ts)] @ payload
     @ [(''Shift'', sh)]"

definition readings :: frame where
  "readings = \<lparr>columns = EVENTS_COLS,
     rows = [full_row (Num 5) (Str ''op1'') (Stamp 100) (Str ''Day'')]\<rparr>"

text \<open>Chunks with a shift label that the table does not hold.\<close>

definition swing :: frame where
  "swing = \<lparr>columns = required,
     rows = [req_row (Num 7) (Str ''op1'') (Stamp 100) (Str ''SWING'')]\<rparr>"


section \<open>The derived session rows\<close>













section \<open>What the store and the loader change\<close>

lemma insert_row_Inr:
  "insert_row s t r = Inr s' \<Longrightarrow>
     \<exists>r'. s' = s(t := s t @ [r']) \<and> r' = rendered t r @ generated (s t) t (rendered t r) \<and>
          widths_ok t (rendered t r) \<and> not_null_ok t (rendered t r) \<and>
          unique_ok (s t) t r' \<and> fk_ok s t r'"
  by (auto simp: insert_row_def Let_def split: if_splits)

lemma insert_rows_Inr:
  "insert_rows s t rs = Inr s' \<Longrightarrow> \<exists>new. s' = s(t := s t @ new) \<and> length new = length rs"
proof (induction rs arbitrary: s)
  case Nil
  then show ?case by auto
next
  case (Cons r rs)
  from Cons.prems obtain s1 where s1: "insert_row s t r = Inr s1" "insert_rows s1 t rs = Inr s'"
    by (auto split: sum.splits)
  from insert_row_Inr [OF s1(1)] obtain r' where r': "s1 = s(t := s t @ [r'])"
    by blast
  from Cons.IH [OF s1(2)] obtain new where new: "s' = s1(t := s1 t @ new)" "length new = length rs"
    by blast
  show ?case
    by (rule exI [of _ "r' # new"]) (simp add: r' new)
qed

lemma bulk_insert_Ok:
  "bulk_insert_mappings d t rs = Ok u d' \<Longrightarrow>
     committed d' = committed d \<and>
     (\<exists>new. pending d' = (pending d)(t := pending d t @ new) \<and> length new = length rs)"
  by (auto simp: bulk_insert_mappings_def split: sum.splits dest: insert_rows_Inr)

lemma bulk_insert_Raise: "bulk_insert_mappings d t rs = Raise e d' \<Longrightarrow> d' = d"
  by (auto simp: bulk_insert_mappings_def split: sum.splits)

lemma ensure_operators_Raise: "ensure_operators d ids = Raise e d' \<Longrightarrow> d' = d"
  by (auto simp: ensure_operators_def Let_def split: if_splits result.splits dest: bulk_insert_Raise)

lemma ensure_operators_Ok:
  "ensure_operators d ids = Ok u d' \<Longrightarrow>
     d' = d \<or> (\<exists>new. pending d' = (pending d)(Operators := pending d Operators @ new) \<and>
                 committed d' = pending d')"
  by (auto simp: ensure_operators_def Let_def commit_def split: if_splits result.splits
      dest!: bulk_insert_Ok)

lemma ensure_sessions_Raise: "ensure_sessions d df = Raise e d' \<Longrightarrow> d' = d"
  by (auto simp: ensure_sessions_def Let_def split: if_splits result.splits dest: bulk_insert_Raise)

lemma ensure_sessions_Ok:
  "ensure_sessions d df = Ok u d' \<Longrightarrow>
     d' = d \<or> (\<exists>new. pending d' = (pending d)(Sessions := pending d Sessions @ new) \<and>
                 committed d' = pending d')"
  by (auto simp: ensure_sessions_def Let_def commit_def split: if_splits result.splits
      dest!: bulk_insert_Ok)


lemma ensure_operators_step:
  assumes "ensure_operators d ids = Ok u d1" "pending d = committed d"
  shows "pending d1 = committed d1 \<and> (\<forall>t. t \<noteq> Operators \<longrightarrow> pending d1 t = pending d t) \<and>
         (\<exists>new. pending d1 Operators = pending d Operators @ new)"
  using ensure_operators_Ok [OF assms(1)] assms(2) by auto

lemma ensure_sessions_step:
  assumes "ensure_sessions d df = Ok u d1" "pending d = committed d"
  shows "pending d1 = committed d1 \<and> (\<forall>t. t \<noteq> Sessions \<longrightarrow> pending d1 t = pending d t) \<and>
         (\<exists>new. pending d1 Sessions = pending d Sessions @ new)"
  using ensure_sessions_Ok [OF assms(1)] assms(2) by auto

lemma load_chunk_cases:
  assumes "load_chunk d chunk = res"
  obtains
    (invalid) e where "res = Raise e d"
  | (operators) e ids where "ensure_operators d ids = Raise e d" "res = Raise e d"
  | (sessions) e ids df d1 where "ensure_operators d ids = Ok () d1"
      "ensure_sessions d1 df = Raise e d1" "res = Raise e d1"
  | (events) e ids df d1 d2 where "ensure_operators d ids = Ok () d1"
      "ensure_sessions d1 df = Ok () d2"
      "bulk_insert_mappings d2 Events (event_records df) = Raise e d2" "res = Raise e d2"
  | (loaded) ids df d1 d2 d3 where "ensure_operators d ids = Ok () d1"
      "ensure_sessions d1 df = Ok () d2"
      "bulk_insert_mappings d2 Events (event_records df) = Ok () d3"
      "res = Ok (length (event_records df)) (commit d3)"
proof -
  let ?df = "coerce (keep_columns chunk)"
  let ?ids = "unique (map py_str (column_values ?df ''Operator_ID''))"
  show thesis
  proof (cases "filter (\<lambda>c. c \<notin> set (columns (keep_columns chunk))) required \<noteq> [] \<or>
      list_ex is_Dec (map to_numeric (column_values (keep_columns chunk) ''Session_ID''))")
    case True
    with assms have "\<exists>e. res = Raise e d"
      by (auto simp: load_chunk_def Let_def split: if_splits)
    then show ?thesis using invalid by blast
  next
    case False
    show ?thesis
    proof (cases "ensure_operators d ?ids")
      case (Raise e d')
      with ensure_operators_Raise [OF Raise] False assms operators [of ?ids e] show ?thesis
        by (auto simp: load_chunk_def Let_def)
    next
      case (Ok u d1)
      note ops = this
      show ?thesis
      proof (cases "ensure_sessions d1 ?df")
        case (Raise e d')
        with ensure_sessions_Raise [OF Raise] False assms ops sessions [of ?ids d1 ?df e] show ?thesis
          by (auto simp: load_chunk_def Let_def)
      next
        case (Ok u' d2)
        note sess = this
        show ?thesis
        proof (cases "bulk_insert_mappings d2 Events (event_records ?df)")
          case (Raise e d')
          with bulk_insert_Raise [OF Raise] False assms ops sess events [of ?ids d1 ?df d2 e]
          show ?thesis
            by (auto simp: load_chunk_def Let_def)
        next
          case (Ok u'' d3)
          with False assms ops sess loaded [of ?ids d1 ?df d2 d3]
          show ?thesis
            by (auto simp: load_chunk_def Let_def)
        qed
      qed
    qed
  qed
qed

lemma load_chunk_Raise:
  assumes "load_chunk d c = Raise e d'" "pending d = committed d"
  shows "pending d' = committed d' \<and> committed d' Events = committed d Events \<and>
     (\<forall>t. t \<noteq> Operators \<longrightarrow> t \<noteq> Sessions \<longrightarrow> committed d' t = committed d t) \<and>
     (\<forall>t. \<exists>new. committed d' t = committed d t @ new)"
  using assms(1)
proof (cases rule: load_chunk_cases)
  case (invalid e)
  then show ?thesis using assms(2) by simp
next
  case (operators e ids)
  then show ?thesis using assms(2) by simp
next
  case (sessions e ids df d1)
  from ensure_operators_step [OF sessions(1) assms(2)] sessions(3) assms(2) show ?thesis
    by (auto, metis append_Nil2)
next
  case (events e ids df d1 d2)
  from ensure_operators_step [OF events(1) assms(2)]
  have 1: "pending d1 = committed d1" "\<forall>t. t \<noteq> Operators \<longrightarrow> pending d1 t = pending d t"
    "\<exists>new. pending d1 Operators = pending d Operators @ new" by auto
  from ensure_sessions_step [OF events(2) 1(1)]
  have 2: "pending d2 = committed d2" "\<forall>t. t \<noteq> Sessions \<longrightarrow> pending d2 t = pending d1 t"
    "\<exists>new. pending d2 Sessions = pending d1 Sessions @ new" by auto
  have "\<exists>new. committed d2 t = committed d t @ new" for t
    using 1 2 assms(2) by (cases "t = Operators"; cases "t = Sessions") auto
  with 1 2 events(4) assms(2) show ?thesis
    by auto
next
  case (loaded ids df d1 d2 d3)
  then show ?thesis by simp
qed

lemma load_chunk_Ok:
  assumes "load_chunk d c = Ok n d'" "pending d = committed d"
  shows "pending d' = committed d' \<and>
     (\<exists>new. committed d' Events = committed d Events @ new \<and> length new = n) \<and>
     (\<forall>t. t \<noteq> Operators \<longrightarrow> t \<noteq> Sessions \<longrightarrow> t \<noteq> Events \<longrightarrow> committed d' t = committed d t) \<and>
     (\<forall>t. \<exists>new. committed d' t = committed d t @ new)"
  using assms(1)
proof (cases rule: load_chunk_cases)
  case (loaded ids df d1 d2 d3)
  from ensure_operators_step [OF loaded(1) assms(2)]
  have 1: "pending d1 = committed d1" "\<forall>t. t \<noteq> Operators \<longrightarrow> pending d1 t = pending d t"
    "\<exists>new. pending d1 Operators = pending d Operators @ new" by auto
  from ensure_sessions_step [OF loaded(2) 1(1)]
  have 2: "pending d2 = committed d2" "\<forall>t. t \<noteq> Sessions \<longrightarrow> pending d2 t = pending d1 t"
    "\<exists>new. pending d2 Sessions = pending d1 Sessions @ new" by auto
  from bulk_insert_Ok [OF loaded(3)] obtain new where
    3: "pending d3 = (pending d2)(Events := pending d2 Events @ new)" "length new = length (event_records df)"
    by auto
  from loaded(4) have d': "d' = commit d3" "n = length (event_records df)" by auto
  have ev: "committed d' Events = committed d Events @ new"
    using 1 2 3 d' assms(2) by (simp add: commit_def)
  have ext: "\<exists>new. committed d' t = committed d t @ new" for t
    using 1 2 3 d' assms(2) by (cases "t = Operators"; cases "t = Sessions"; cases "t = Events") (auto simp: commit_def)
  have oth: "t \<noteq> Operators \<Longrightarrow> t \<noteq> Sessions \<Longrightarrow> t \<noteq> Events \<Longrightarrow> committed d' t = committed d t" for t
    using 1 2 3 d' assms(2) by (simp add: commit_def)
  show ?thesis
    using ev ext oth 3(2) d' by (auto simp: commit_def)
qed simp_all


section \<open>Rows and fields\<close>

lemma remove_bom_plain: "CHR 0xEF \<notin> set s \<Longrightarrow> remove_bom s = s"
  by (induction s) (auto simp: bom_def)

lemma field_Nil [simp]: "field [] k = NA"
  by (simp add: field_def)

lemma field_Cons [simp]: "field ((k', v) # r) k = (if k = k' then v else field r k)"
  by (simp add: field_def)








section \<open>Reconciliation\<close>

subsection \<open>Inserting operators\<close>






subsection \<open>Inserting sessions\<close>














section \<open>Runs\<close>

lemma load_chunks_Ok:
  "load_chunks d tot cs = Ok n d' \<Longrightarrow> pending d = committed d \<Longrightarrow>
     pending d' = committed d' \<and> tot \<le> n \<and>
     (\<exists>new. committed d' Events = committed d Events @ new \<and> length new = n - tot) \<and>
     (\<forall>t. t \<noteq> Operators \<longrightarrow> t \<noteq> Sessions \<longrightarrow> t \<noteq> Events \<longrightarrow> committed d' t = committed d t) \<and>
     (\<forall>t. \<exists>new. committed d' t = committed d t @ new)"
proof (induction cs arbitrary: d tot)
  case Nil
  then show ?case by auto
next
  case (Cons c cs)
  from Cons.prems(1) obtain m d1 where
    c: "load_chunk d c = Ok m d1" and cs: "load_chunks d1 (tot + m) cs = Ok n d'"
    by (auto split: result.splits)
  note 1 = load_chunk_Ok [OF c Cons.prems(2)]
  then have p1: "pending d1 = committed d1" by simp
  note 2 = Cons.IH [OF cs p1]
  from 1 obtain new1 where new1: "committed d1 Events = committed d Events @ new1" "length new1 = m"
    by blast
  from 2 obtain new2 where new2: "committed d' Events = committed d1 Events @ new2"
    "length new2 = n - (tot + m)"
    by blast
  have ev: "committed d' Events = committed d Events @ (new1 @ new2) \<and> length (new1 @ new2) = n - tot"
    using new1 new2 2 by auto
  have ext: "\<exists>new. committed d' t = committed d t @ new" for t
  proof -
    from 1 obtain a where "committed d1 t = committed d t @ a" by blast
    moreover from 2 obtain b where "committed d' t = committed d1 t @ b" by blast
    ultimately show ?thesis by simp
  qed
  show ?case
    using 1 2 ev ext by auto
qed

lemma load_chunks_Raise:
  "load_chunks d tot cs = Raise e d' \<Longrightarrow>
     \<exists>loaded failed rest n d1. cs = loaded @ failed # rest \<and>
        load_chunks d tot loaded = Ok n d1 \<and> load_chunk d1 failed = Raise e d'"
proof (induction cs arbitrary: d tot)
  case Nil
  then show ?case by simp
next
  case (Cons c cs)
  show ?case
  proof (cases "load_chunk d c")
    case (Raise e1 d1)
    with Cons.prems have "e1 = e" "d1 = d'" by auto
    with Raise show ?thesis
      by (intro exI [of _ "[]"] exI [of _ c] exI [of _ cs] exI [of _ tot] exI [of _ d]) simp
  next
    case (Ok m d1)
    with Cons.prems have "load_chunks d1 (tot + m) cs = Raise e d'" by simp
    from Cons.IH [OF this] obtain loaded failed rest n d2 where
      *: "cs = loaded @ failed # rest" "load_chunks d1 (tot + m) loaded = Ok n d2"
        "load_chunk d2 failed = Raise e d'"
      by blast
    show ?thesis
      using * Ok
      by (intro exI [of _ "c # loaded"] exI [of _ failed] exI [of _ rest] exI [of _ n] exI [of _ d2])
        simp
  qed
qed

text \<open>
  C1, as amended. The Event rows of a chunk are committed together: when a run fails,
  the chunks before the failing one were loaded and committed, the failing chunk has
  left no Event row (and no row in any table but Operators and Sessions) in the store,
  nothing is pending, and every table still starts with what was committed before the
  chunk; the Operator and Session rows that reconciliation created for the failing
  chunk were committed on their own and may remain. When a run succeeds, it has
  committed as many Event rows as it reports and nothing is pending.
\<close>

theorem chunk_transactions:
  "(load_events_csv s chunks = Raise e d \<longrightarrow>
      (\<exists>loaded failed rest n d1. chunks = loaded @ failed # rest \<and>
          load_events_csv s loaded = Ok n d1 \<and> load_chunk d1 failed = Raise e d \<and>
          pending d = committed d \<and>
          committed d Events = committed d1 Events \<and>
          (\<forall>t. t \<noteq> Operators \<longrightarrow> t \<noteq> Sessions \<longrightarrow> committed d t = committed d1 t) \<and>
          (\<forall>t. \<exists>new. committed d t = committed d1 t @ new))) \<and>
   (load_events_csv s chunks = Ok n d \<longrightarrow>
      pending d = committed d \<and>
      (\<exists>new. committed d Events = s Events @ new \<and> length new = n) \<and>
      (\<forall>t. \<exists>new. committed d t = s t @ new))"
proof (rule conjI; rule impI)
  assume "load_events_csv s chunks = Raise e d"
  then obtain d' where d': "load_chunks (SessionLocal s) 0 chunks = Raise e d'" "d = rollback d'"
    by (auto simp: load_events_csv_def split: result.splits)
  from load_chunks_Raise [OF d'(1)] obtain loaded failed rest n d1 where
    *: "chunks = loaded @ failed # rest" "load_chunks (SessionLocal s) 0 loaded = Ok n d1"
      "load_chunk d1 failed = Raise e d'"
    by blast
  have p0: "pending (SessionLocal s) = committed (SessionLocal s)"
    by (simp add: SessionLocal_def)
  from load_chunks_Ok [OF *(2) p0] have p1: "pending d1 = committed d1"
    by simp
  note r = load_chunk_Raise [OF *(3) p1]
  then have "rollback d' = d'"
    by (simp add: rollback_def)
  with d' have dd: "d = d'" by simp
  have "load_events_csv s loaded = Ok n d1"
    using *(2) by (simp add: load_events_csv_def)
  with * r dd show "\<exists>loaded failed rest n d1. chunks = loaded @ failed # rest \<and>
          load_events_csv s loaded = Ok n d1 \<and> load_chunk d1 failed = Raise e d \<and>
          pending d = committed d \<and>
          committed d Events = committed d1 Events \<and>
          (\<forall>t. t \<noteq> Operators \<longrightarrow> t \<noteq> Sessions \<longrightarrow> committed d t = committed d1 t) \<and>
          (\<forall>t. \<exists>new. committed d t = committed d1 t @ new)"
    by blast
next
  assume "load_events_csv s chunks = Ok n d"
  then have ok: "load_chunks (SessionLocal s) 0 chunks = Ok n d"
    by (auto simp: load_events_csv_def split: result.splits)
  have p0: "pending (SessionLocal s) = committed (SessionLocal s)"
    by (simp add: SessionLocal_def)
  from load_chunks_Ok [OF ok p0]
  show "pending d = committed d \<and>
      (\<exists>new. committed d Events = s Events @ new \<and> length new = n) \<and>
      (\<forall>t. \<exists>new. committed d t = s t @ new)"
    by (simp add: SessionLocal_def)
qed


subsection \<open>Two runs evaluated\<close>

lemma clean_header_plain: "CHR 0xEF \<notin> set h \<Longrightarrow> clean_header h = strip h"
  by (simp add: clean_header_def remove_bom_plain)

lemma keep_batch: "keep_columns batch = batch"
proof -
  have "clean_headers batch = batch"
    by (simp add: clean_headers_def clean_header_plain batch_def required_def req_row_def
        strip_def is_space_def)
  then show ?thesis
    unfolding keep_columns_def
    by (simp add: batch_def required_def req_row_def EVENTS_COLS_def select_def)
qed

lemma load_batch:
  "(case load_events_csv shifts_only [batch] of
      Ok n d \<Rightarrow> False
    | Raise e d \<Rightarrow>
        e = IntegrityError NotNullViolation \<and>
        committed d Operators = [operator_record ''op1'', operator_record ''op2''] \<and>
        map (\<lambda>r. field r ''Session_ID'') (committed d Sessions) = [Num 3, Num 7] \<and>
        committed d Events = [])"
  unfolding load_events_csv_def load_chunks.simps load_chunk_def keep_batch
  by code_simp

lemma keep_readings: "keep_columns readings = readings"
proof -
  have "clean_headers readings = readings"
    by (simp add: clean_headers_def clean_header_plain readings_def full_row_def payload_def
        EVENTS_COLS_def strip_def is_space_def)
  then show ?thesis
    unfolding keep_columns_def
    by (simp add: readings_def full_row_def payload_def EVENTS_COLS_def select_def)
qed

lemma load_readings:
  "(case load_events_csv shifts_only [readings] of
      Ok n d \<Rightarrow> n = 1 \<and> committed d Operators = [operator_record ''op1''] \<and>
        map (\<lambda>r. field r ''Session_ID'') (committed d Sessions) = [Num 5] \<and>
        map (\<lambda>r. field r ''Event_ID'') (committed d Events) = [Num 1]
    | Raise e d \<Rightarrow> False)"
  unfolding load_events_csv_def load_chunks.simps load_chunk_def keep_readings
  by code_simp

text \<open>
  C1 as stated fails: the chunk \<open>batch\<close> has no column but the required four, so its
  Event insert is refused and the run fails; the two Operator rows and the two Session
  rows of that chunk are in the store all the same.
\<close>

theorem failed_chunk_keeps_parents:
  "(case load_events_csv shifts_only [batch] of
      Ok n d \<Rightarrow> False
    | Raise e d \<Rightarrow>
        e = IntegrityError NotNullViolation \<and>
        committed d Operators = [operator_record ''op1'', operator_record ''op2''] \<and>
        map (\<lambda>r. field r ''Session_ID'') (committed d Sessions) = [Num 3, Num 7] \<and>
        committed d Events = [])"
  by (rule load_batch)

theorem chunk_transactions_witness:
  "\<exists>e d n' d'. load_events_csv shifts_only [batch] = Raise e d \<and>
      pending d = committed d \<and> committed d Events = [] \<and> committed d Alerts = [] \<and>
      load_events_csv shifts_only [readings] = Ok n' d' \<and>
      pending d' = committed d' \<and> length (committed d' Events) = n'"
proof -
  from load_batch obtain e d where r: "load_events_csv shifts_only [batch] = Raise e d"
    by (cases "load_events_csv shifts_only [batch]") auto
  from load_readings obtain n' d' where o: "load_events_csv shifts_only [readings] = Ok n' d'"
    by (cases "load_events_csv shifts_only [readings]") auto
  have empty: "load_events_csv shifts_only [] = Ok 0 (SessionLocal shifts_only)"
    by (simp add: load_events_csv_def)
  from chunk_transactions [THEN conjunct1, rule_format, OF r]
  obtain loaded failed rest n d1 where
    *: "[batch] = loaded @ failed # rest" "load_events_csv shifts_only loaded = Ok n d1"
      "pending d = committed d" "committed d Events = committed d1 Events"
      "\<forall>t. t \<noteq> Operators \<longrightarrow> t \<noteq> Sessions \<longrightarrow> committed d t = committed d1 t"
    by (elim exE conjE)
  from *(1) have "loaded = []"
    by (cases loaded) auto
  with *(2) empty have d1: "d1 = SessionLocal shifts_only"
    by simp
  have 1: "committed d Events = []" "committed d Alerts = []"
    using * d1 by (simp_all add: SessionLocal_def shifts_only_def)
  from chunk_transactions [THEN conjunct2, rule_format, OF o]
  have 2: "pending d' = committed d'" "length (committed d' Events) = n'"
    by (auto simp: shifts_only_def)
  from r o *(3) 1 2 show ?thesis
    by blast
qed

section \<open>Shift labels\<close>




lemma coerce_swing: "coerce swing = swing"
  by code_simp




end
